theory Spec2Isabelle
  imports Main
begin

section \<open>Python values used by the SQL assistant\<close>

text \<open>
  A Python \<^verbatim>\<open>str\<close> is a sequence of Unicode code points, so it is modelled as a list of
  natural numbers; \<open>py\<close> turns an ASCII literal into such a sequence.
\<close>

type_synonym py_str = "nat list"

abbreviation py :: "string \<Rightarrow> py_str" where
  "py s \<equiv> map of_char s"

text \<open>
  The exception classes that the two programs raise, catch or can receive from their
  libraries. \<open>KeyboardInterrupt\<close>, \<open>SystemExit\<close> and \<open>GeneratorExit\<close> derive from
  \<^verbatim>\<open>BaseException\<close> only; every other class derives from \<^verbatim>\<open>Exception\<close>.
  \<open>OtherException\<close> stands for any further subclass of \<^verbatim>\<open>Exception\<close> (the driver's
  \<^verbatim>\<open>OperationalError\<close>, a provider's HTTP error, ...), named by its class name.
\<close>

datatype exc_class =
    KeyboardInterrupt
  | SystemExit int
  | GeneratorExit
  | EOFError
  | FileNotFoundError
  | KeyError
  | IndexError
  | AttributeError
  | RuntimeError
  | OtherException py_str

text \<open>
  An exception object: its class, the text \<^verbatim>\<open>str(e)\<close> (what \<^verbatim>\<open>f"{e}"\<close> renders), and
  the optional \<^verbatim>\<open>response\<close> attribute probed by \<^verbatim>\<open>handle_error\<close>: \<open>None\<close> when the
  exception has no such attribute, \<open>Some None\<close> when the response has no \<^verbatim>\<open>text\<close>,
  \<open>Some (Some t)\<close> when \<^verbatim>\<open>e.response.text\<close> renders as \<open>t\<close>.
\<close>

record py_exception =
  exc_class :: exc_class
  exc_str :: py_str
  exc_response :: "py_str option option"

text \<open>\<^verbatim>\<open>isinstance(e, Exception)\<close>: what an \<^verbatim>\<open>except Exception\<close> clause catches.\<close>

fun is_Exception_class :: "exc_class \<Rightarrow> bool" where
  "is_Exception_class KeyboardInterrupt = False"
| "is_Exception_class (SystemExit code) = False"
| "is_Exception_class GeneratorExit = False"
| "is_Exception_class c = True"

definition isinstance_Exception :: "py_exception \<Rightarrow> bool" where
  "isinstance_Exception e = is_Exception_class (exc_class e)"

section \<open>The database boundary\<close>

text \<open>
  One call made on a database handle. \<open>get_compact_schema\<close> reports the calls it
  makes, in order, the way a call-counting stub would record them.
\<close>

datatype db_call =
    Run py_str
  | GetUsableTableNames
  | GetColumns py_str

text \<open>
  A column description returned by the inspector is a dictionary; only its \<^verbatim>\<open>'name'\<close>
  entry is read.
\<close>

type_synonym column = "py_str \<rightharpoonup> py_str"

text \<open>
  \<^verbatim>\<open>SQLDatabase\<close> is a library class, so the handle is a record of the three capabilities
  the programs use. \<open>'s\<close> is the state of the database behind the handle (rows, and
  whatever else decides the result of a statement): \<^verbatim>\<open>db.run(query)\<close> returns the
  textual rendering of the rows or raises, and leaves a new state.
\<close>

record 's SQLDatabase =
  run :: "py_str \<Rightarrow> 's \<Rightarrow> (py_exception + py_str) \<times> 's"
  get_usable_table_names :: "py_str list"
  inspector_get_columns :: "py_str \<Rightarrow> py_exception + column list"

section \<open>RuntimeContext and the execute_sql tool\<close>

record 's RuntimeContext =
  db :: "'s SQLDatabase"

text \<open>
  The object returned by \<^verbatim>\<open>get_runtime(RuntimeContext)\<close>; its \<^verbatim>\<open>context\<close> attribute is
  \<^verbatim>\<open>None\<close> when the run was started without a context.
\<close>

record 's Runtime =
  runtime_context :: "'s RuntimeContext option"

definition NoneType_has_no_db :: py_exception where
  "NoneType_has_no_db =
     \<lparr>exc_class = AttributeError,
      exc_str = [39] @ py ''NoneType'' @ [39] @ py '' object has no attribute '' @ [39] @ py ''db'' @ [39],
      exc_response = None\<rparr>"

text \<open>
  \<^verbatim>\<open>execute_sql\<close> (the same body in both programs). Its parameters beside the query:
  \<^item> \<open>module_db\<close>: the module-level name \<^verbatim>\<open>db\<close> in scope where the tool is defined
    (bound in the flat script, absent in the refactored one). The body assigns \<^verbatim>\<open>db\<close>,
    so the name is local to the function and the module-level one is never read;
  \<^item> \<open>get_runtime\<close>: the outcome of the library call \<^verbatim>\<open>get_runtime(RuntimeContext)\<close>
    at call time, which raises when no runtime is bound;
  \<^item> the state of the database before the call.
  Resolving the runtime and the handle happens before the \<^verbatim>\<open>try\<close>, so a failure there
  propagates; inside the \<^verbatim>\<open>try\<close>, \<^verbatim>\<open>except Exception\<close> turns an exception into text.
\<close>

definition execute_sql ::
  "'s SQLDatabase option \<Rightarrow> (py_exception + 's Runtime) \<Rightarrow> py_str \<Rightarrow> 's
     \<Rightarrow> (py_exception + py_str) \<times> 's" where
  "execute_sql module_db get_runtime query s =
     (case get_runtime of
        Inl e \<Rightarrow> (Inl e, s)
      | Inr runtime \<Rightarrow>
          (case runtime_context runtime of
             None \<Rightarrow> (Inl NoneType_has_no_db, s)
           | Some ctx \<Rightarrow>
               (case run (db ctx) query s of
                  (Inr rows, s') \<Rightarrow> (Inr rows, s')
                | (Inl e, s') \<Rightarrow>
                    if isinstance_Exception e
                    then (Inr (py ''Error: '' @ exc_str e), s')
                    else (Inl e, s'))))"

section \<open>The schema summarizer\<close>

text \<open>\<^verbatim>\<open>sep.join(xs)\<close>.\<close>

fun join :: "py_str \<Rightarrow> py_str list \<Rightarrow> py_str" where
  "join sep [] = []"
| "join sep [x] = x"
| "join sep (x # y # ys) = x @ sep @ join sep (y # ys)"

definition KeyError_of :: "py_str \<Rightarrow> py_exception" where
  "KeyError_of k = \<lparr>exc_class = KeyError, exc_str = [39] @ k @ [39], exc_response = None\<rparr>"

text \<open>
  \<^verbatim>\<open>col['name'] for col in columns\<close>: the names in the order of the columns; a column
  dictionary without the key raises \<^verbatim>\<open>KeyError\<close> at the first such column.
\<close>

fun col_names :: "column list \<Rightarrow> py_exception + py_str list" where
  "col_names [] = Inr []"
| "col_names (col # cols) =
     (case col (py ''name'') of
        None \<Rightarrow> Inl (KeyError_of (py ''name''))
      | Some n \<Rightarrow> (case col_names cols of Inl e \<Rightarrow> Inl e | Inr ns \<Rightarrow> Inr (n # ns)))"

text \<open>The f-string \<^verbatim>\<open>f"- {table}: {', '.join(...)}"\<close>.\<close>

definition schema_line :: "py_str \<Rightarrow> py_str list \<Rightarrow> py_str" where
  "schema_line table names = py ''- '' @ table @ py '': '' @ join (py '', '') names"

text \<open>
  The refactored \<^verbatim>\<open>get_compact_schema\<close>: \<^verbatim>\<open>'\n'.join(... for table in
  db.get_usable_table_names())\<close>. \<open>schema_lines\<close> is the generator being consumed: for each
  table in turn the inspector is asked for the columns and the line is built; the first
  exception ends the consumption and leaves the function. There is no \<^verbatim>\<open>try\<close> in it.
\<close>

fun schema_lines :: "'s SQLDatabase \<Rightarrow> py_str list \<Rightarrow> (py_exception + py_str list) \<times> db_call list" where
  "schema_lines d [] = (Inr [], [])"
| "schema_lines d (table # tables) =
     (case inspector_get_columns d table of
        Inl e \<Rightarrow> (Inl e, [GetColumns table])
      | Inr columns \<Rightarrow>
          (case col_names columns of
             Inl e \<Rightarrow> (Inl e, [GetColumns table])
           | Inr names \<Rightarrow>
               (case schema_lines d tables of
                  (Inl e, calls) \<Rightarrow> (Inl e, GetColumns table # calls)
                | (Inr ls, calls) \<Rightarrow> (Inr (schema_line table names # ls), GetColumns table # calls))))"

definition get_compact_schema :: "'s SQLDatabase \<Rightarrow> (py_exception + py_str) \<times> db_call list" where
  "get_compact_schema d =
     (case schema_lines d (get_usable_table_names d) of
        (Inl e, calls) \<Rightarrow> (Inl e, GetUsableTableNames # calls)
      | (Inr ls, calls) \<Rightarrow> (Inr (join [10] ls), GetUsableTableNames # calls))"

text \<open>
  The flat script's \<^verbatim>\<open>get_compact_schema\<close>: a \<^verbatim>\<open>for\<close> loop appending to
  \<^verbatim>\<open>schema_lines\<close>. \<open>schema_loop\<close> is the loop, with the lines and the calls so far.
\<close>

fun schema_loop ::
  "'s SQLDatabase \<Rightarrow> py_str list \<Rightarrow> py_str list \<Rightarrow> db_call list
     \<Rightarrow> (py_exception + py_str list) \<times> db_call list" where
  "schema_loop d [] lines calls = (Inr lines, calls)"
| "schema_loop d (table_name # tables) lines calls =
     (case inspector_get_columns d table_name of
        Inl e \<Rightarrow> (Inl e, calls @ [GetColumns table_name])
      | Inr columns \<Rightarrow>
          (case col_names columns of
             Inl e \<Rightarrow> (Inl e, calls @ [GetColumns table_name])
           | Inr names \<Rightarrow>
               schema_loop d tables (lines @ [schema_line table_name names])
                 (calls @ [GetColumns table_name])))"

definition get_compact_schema_flat :: "'s SQLDatabase \<Rightarrow> (py_exception + py_str) \<times> db_call list" where
  "get_compact_schema_flat d =
     (case schema_loop d (get_usable_table_names d) [] [GetUsableTableNames] of
        (Inl e, calls) \<Rightarrow> (Inl e, calls)
      | (Inr ls, calls) \<Rightarrow> (Inr (join [10] ls), calls))"

section \<open>The command-line shell\<close>

subsection \<open>Standard output and the question prompt\<close>

text \<open>
  Standard output is the text written so far. \<^verbatim>\<open>print(x)\<close> writes \<open>x\<close> and a newline.
\<close>

definition print :: "py_str \<Rightarrow> py_str" where
  "print x = x @ [10]"

text \<open>
  \<^verbatim>\<open>str.isspace\<close> on one code point: the characters Python treats as whitespace
  (tab to carriage return, the four separators 0x1C to 0x1F, space, NEL, no-break space
  and the Unicode space separators).
\<close>

definition isspace :: "nat \<Rightarrow> bool" where
  "isspace c \<longleftrightarrow>
     (9 \<le> c \<and> c \<le> 13) \<or> (28 \<le> c \<and> c \<le> 32) \<or> c = 133 \<or> c = 160 \<or> c = 5760 \<or>
     (8192 \<le> c \<and> c \<le> 8202) \<or> c = 8232 \<or> c = 8233 \<or> c = 8239 \<or> c = 8287 \<or> c = 12288"

text \<open>\<^verbatim>\<open>s.strip()\<close>: drop the whitespace at both ends.\<close>

definition strip :: "py_str \<Rightarrow> py_str" where
  "strip s = rev (dropWhile isspace (rev (dropWhile isspace s)))"

definition DEFAULT_QUESTION :: py_str where
  "DEFAULT_QUESTION = py ''List top 10 artists with highest tracks''"

definition SystemExit_0 :: py_exception where
  "SystemExit_0 = \<lparr>exc_class = SystemExit 0, exc_str = py ''0'', exc_response = None\<rparr>"

text \<open>
  The refactored \<^verbatim>\<open>get_user_question\<close>. \<open>input_result\<close> is the outcome of \<^verbatim>\<open>input(...)\<close>:
  the line read (without its newline), or the exception raised. The prompt is written
  first. \<^verbatim>\<open>x or y\<close> on strings yields \<open>y\<close> exactly when \<open>x\<close> is empty.
  \<^verbatim>\<open>exit(0)\<close> raises \<^verbatim>\<open>SystemExit(0)\<close>.
  The result is the returned question or the exception that leaves the function, with
  the text written.
\<close>

definition get_user_question :: "(py_exception + py_str) \<Rightarrow> (py_exception + py_str) \<times> py_str" where
  "get_user_question input_result =
     (let prompt = py ''Question ['' @ DEFAULT_QUESTION @ py '']: '' in
      case input_result of
        Inr line \<Rightarrow> (Inr (if strip line = [] then DEFAULT_QUESTION else strip line), prompt)
      | Inl e \<Rightarrow>
          if exc_class e = KeyboardInterrupt \<or> exc_class e = EOFError
          then (Inl SystemExit_0, prompt @ print ([10, 10] @ py ''Exiting...''))
          else (Inl e, prompt))"

text \<open>The flat script's \<^verbatim>\<open>get_user_question\<close>: another prompt and no \<^verbatim>\<open>try\<close>.\<close>

definition get_user_question_flat :: "(py_exception + py_str) \<Rightarrow> (py_exception + py_str) \<times> py_str" where
  "get_user_question_flat input_result =
     (let default_question = py ''List top 10 artists with highest tracks'';
          prompt = py ''Enter your question (press Enter to use default): '' @
                   [10] @ py ''[Default: '' @ default_question @ py '']'' @ [10] @ py ''> '' in
      case input_result of
        Inr user_input \<Rightarrow>
          (Inr (if strip user_input = [] then default_question else strip user_input), prompt)
      | Inl e \<Rightarrow> (Inl e, prompt))"

subsection \<open>Error reporting\<close>

text \<open>
  \<^verbatim>\<open>handle_error\<close> of the refactored script: one \<^verbatim>\<open>print\<close> for the error, and a second
  one when the exception has a \<^verbatim>\<open>response\<close> with a \<^verbatim>\<open>text\<close>.
\<close>

definition handle_error :: "py_exception \<Rightarrow> py_str \<Rightarrow> py_str" where
  "handle_error e ctxt =
     print ([10] @ py ''Error '' @ ctxt @ py '': '' @ exc_str e) @
     (case exc_response e of
        Some (Some t) \<Rightarrow> print (py ''Response: '' @ t)
      | _ \<Rightarrow> [])"

text \<open>
  \<^verbatim>\<open>handle_error\<close> of the flat script: the messages are collected in a list and
  printed once, joined by newlines.
\<close>

definition handle_error_flat :: "py_exception \<Rightarrow> py_str \<Rightarrow> py_str" where
  "handle_error_flat e ctxt =
     (let error_msg = [[10] @ py ''Error '' @ ctxt @ py '': '' @ exc_str e];
          error_msg' = (case exc_response e of
                          Some (Some t) \<Rightarrow> error_msg @ [py ''Response: '' @ t]
                        | _ \<Rightarrow> error_msg)
      in print (join [10] error_msg'))"

subsection \<open>The streaming loop\<close>

text \<open>
  A message of a snapshot, as far as the loop uses it: what \<^verbatim>\<open>pretty_print()\<close> does,
  which is to write a text or to raise.
\<close>

record message =
  pretty_print :: "py_exception + py_str"

text \<open>A snapshot yielded by the stream is a dictionary; the loop reads its \<^verbatim>\<open>"messages"\<close>.\<close>

type_synonym step = "py_str \<rightharpoonup> message list"

definition list_index_out_of_range :: py_exception where
  "list_index_out_of_range =
     \<lparr>exc_class = IndexError, exc_str = py ''list index out of range'', exc_response = None\<rparr>"

text \<open>
  The body of the inner \<^verbatim>\<open>try\<close>: \<^verbatim>\<open>step["messages"][-1].pretty_print()\<close>. A missing key
  raises \<^verbatim>\<open>KeyError\<close>, an empty list \<^verbatim>\<open>IndexError\<close>.
\<close>

definition print_last_message :: "step \<Rightarrow> py_exception + py_str" where
  "print_last_message step =
     (case step (py ''messages'') of
        None \<Rightarrow> Inl (KeyError_of (py ''messages''))
      | Some msgs \<Rightarrow> if msgs = [] then Inl list_index_out_of_range else pretty_print (last msgs))"

text \<open>
  The \<^verbatim>\<open>for step in agent.stream(...)\<close> loop. The stream is the finite sequence of
  snapshots the generator yields, in order, and the exception it raises after them, if
  any. \<open>handler\<close> is the
  script's \<^verbatim>\<open>handle_error\<close>. An \<^verbatim>\<open>Exception\<close> from the body is reported and the loop is
  left by \<^verbatim>\<open>break\<close>; any other exception leaves the loop as it is.
\<close>

fun stream_loop ::
  "(py_exception \<Rightarrow> py_str \<Rightarrow> py_str) \<Rightarrow> step list \<Rightarrow> py_exception option
     \<Rightarrow> (py_exception + unit) \<times> py_str" where
  "stream_loop handler [] None = (Inr (), [])"
| "stream_loop handler [] (Some e) = (Inl e, [])"
| "stream_loop handler (step # steps) raised =
     (case print_last_message step of
        Inr out \<Rightarrow> (case stream_loop handler steps raised of (r, out') \<Rightarrow> (r, out @ out'))
      | Inl e \<Rightarrow>
          if isinstance_Exception e
          then (Inr (), handler e (py ''processing stream''))
          else (Inl e, []))"

subsection \<open>The two scripts\<close>

text \<open>
  An agent, as far as the scripts use it: \<^verbatim>\<open>agent.stream({"messages": question},
  context={"db": db}, stream_mode="values")\<close>.
\<close>

type_synonym 's agent = "py_str \<Rightarrow> 's RuntimeContext \<Rightarrow> step list \<times> py_exception option"

text \<open>
  What the scripts receive from outside: the outcome of each library call and of the
  file-system test, and what standard input delivers.
\<close>

record 's world =
  load_dotenv :: "py_exception option"
  db_path :: py_str
  db_path_exists :: bool
  from_uri :: "py_str \<Rightarrow> py_exception + 's SQLDatabase"
  ChatCohere :: "py_exception option"
  create_agent :: "py_str \<Rightarrow> py_exception + 's agent"
  input :: "py_exception + py_str"

definition create_database :: "'s world \<Rightarrow> py_exception + 's SQLDatabase" where
  "create_database w =
     (if \<not> db_path_exists w
      then Inl \<lparr>exc_class = FileNotFoundError,
                exc_str = py ''Database not found: '' @ db_path w,
                exc_response = None\<rparr>
      else from_uri w (py ''sqlite:///'' @ db_path w))"

definition create_sql_agent :: "'s world \<Rightarrow> 's SQLDatabase \<Rightarrow> py_exception + 's agent" where
  "create_sql_agent w d =
     (case fst (get_compact_schema d) of
        Inl e \<Rightarrow> Inl e
      | Inr schema \<Rightarrow>
          (let system_prompt =
                 py ''SQL analyst for music database (read-only).'' @ [10] @
                 py ''Schema:'' @ [10] @ schema @ [10] @
                 py ''Rules:'' @ [10] @
                 py ''- Use execute_sql with explicit columns (avoid SELECT *)'' @ [10] @
                 py ''- Limit 5 rows unless specified'' @ [10] @
                 py ''- Fix and retry on errors''
           in case ChatCohere w of
                Some e \<Rightarrow> Inl e
              | None \<Rightarrow> create_agent w system_prompt))"

text \<open>\<^verbatim>\<open>main()\<close> of the refactored script: the exception that leaves it, if any, and the text written.\<close>

definition main :: "'s world \<Rightarrow> (py_exception + unit) \<times> py_str" where
  "main w =
     (case load_dotenv w of
        Some e \<Rightarrow> (Inl e, [])
      | None \<Rightarrow>
     (case create_database w of
        Inl e \<Rightarrow> (Inl e, [])
      | Inr d \<Rightarrow>
     (case create_sql_agent w d of
        Inl e \<Rightarrow> (Inl e, [])
      | Inr agent \<Rightarrow>
     (case get_user_question (input w) of
        (Inl e, out) \<Rightarrow> (Inl e, out)
      | (Inr question, out) \<Rightarrow>
          (let out1 = out @ print ([10] @ py ''Processing: '' @ question @ [10]) in
           case agent question \<lparr>db = d\<rparr> of
             (steps, raised) \<Rightarrow>
               (case stream_loop handle_error steps raised of
                  (r, out2) \<Rightarrow> (r, out1 @ out2)))))))"

text \<open>
  How a process ends: with an exit status, or by an exception nobody caught (the
  interpreter prints the traceback and the status is not zero).
\<close>

datatype process_end = Exited int | Uncaught py_exception

text \<open>
  An exception that reaches the interpreter: \<^verbatim>\<open>SystemExit(code)\<close> ends the process with
  that status, anything else is uncaught.
\<close>

definition interpreter_exit :: "py_exception \<Rightarrow> process_end" where
  "interpreter_exit e = (case exc_class e of SystemExit code \<Rightarrow> Exited code | _ \<Rightarrow> Uncaught e)"

text \<open>
  The \<^verbatim>\<open>if __name__ == "__main__"\<close> block of the refactored script: the text written
  and how the process ends. Control falls off the end of the script after
  \<^verbatim>\<open>handle_error\<close>, which is exit status 0.
\<close>

definition script :: "'s world \<Rightarrow> py_str \<times> process_end" where
  "script w =
     (case main w of
        (Inr u, out) \<Rightarrow> (out, Exited 0)
      | (Inl e, out) \<Rightarrow>
          if exc_class e = KeyboardInterrupt
          then (out @ print ([10, 10] @ py ''Interrupted by user. Exiting...''),
                interpreter_exit SystemExit_0)
          else if isinstance_Exception e
          then (out @ handle_error e (py ''in main execution''), Exited 0)
          else (out, interpreter_exit e))"

text \<open>
  The flat script: the module-level statements (loading the environment, opening the
  database, building \<^verbatim>\<open>SYSTEM_PROMPT\<close> and the agent) run outside any \<^verbatim>\<open>try\<close>, then
  the \<^verbatim>\<open>__main__\<close> block with its single \<^verbatim>\<open>except Exception\<close>. \<open>flat_main_block\<close> is
  the body of that \<^verbatim>\<open>try\<close>.
\<close>

definition flat_main_block :: "'s world \<Rightarrow> 's SQLDatabase \<Rightarrow> 's agent \<Rightarrow> (py_exception + unit) \<times> py_str" where
  "flat_main_block w d agent =
     (case get_user_question_flat (input w) of
        (Inl e, out) \<Rightarrow> (Inl e, out)
      | (Inr question, out) \<Rightarrow>
          (let out1 = out @ print ([10] @ py ''Processing: '' @ question @ [10]) in
           case agent question \<lparr>db = d\<rparr> of
             (steps, raised) \<Rightarrow>
               (case stream_loop handle_error_flat steps raised of
                  (r, out2) \<Rightarrow> (r, out1 @ out2))))"

definition SYSTEM_PROMPT :: "py_str \<Rightarrow> py_str" where
  "SYSTEM_PROMPT schema =
     py ''SQL analyst for music database (read-only).'' @ [10, 10] @
     py ''Schema:'' @ [10] @ schema @ [10, 10] @
     py ''Rules:'' @ [10] @
     py ''- Use execute_sql with explicit columns (avoid SELECT *)'' @ [10] @
     py ''- Limit 5 rows unless specified'' @ [10] @
     py ''- Fix and retry on errors''"

definition script_flat :: "'s world \<Rightarrow> py_str \<times> process_end" where
  "script_flat w =
     (case load_dotenv w of
        Some e \<Rightarrow> ([], interpreter_exit e)
      | None \<Rightarrow>
     (case from_uri w (py ''sqlite:///Chinook.db'') of
        Inl e \<Rightarrow> ([], interpreter_exit e)
      | Inr d \<Rightarrow>
     (case fst (get_compact_schema_flat d) of
        Inl e \<Rightarrow> ([], interpreter_exit e)
      | Inr schema \<Rightarrow>
     (case ChatCohere w of
        Some e \<Rightarrow> ([], interpreter_exit e)
      | None \<Rightarrow>
     (case create_agent w (SYSTEM_PROMPT schema) of
        Inl e \<Rightarrow> ([], interpreter_exit e)
      | Inr agent \<Rightarrow>
         (case flat_main_block w d agent of
            (Inr u, out) \<Rightarrow> (out, Exited 0)
          | (Inl e, out) \<Rightarrow>
              if isinstance_Exception e
              then (out @ handle_error_flat e (py ''in main execution''), Exited 0)
              else (out, interpreter_exit e)))))))"

section \<open>A stub database for concrete runs\<close>

text \<open>
  A small stand-in for the database, in the manner of a test stub: its state is the list
  of artist names. One query reads the names, one deletes them, one is interrupted by
  the user while it runs, and everything else is rejected by the driver.
\<close>

definition OperationalError :: py_exception where
  "OperationalError =
     \<lparr>exc_class = OtherException (py ''OperationalError''),
      exc_str = py ''syntax error'', exc_response = None\<rparr>"

definition Interrupted :: py_exception where
  "Interrupted = \<lparr>exc_class = KeyboardInterrupt, exc_str = [], exc_response = None\<rparr>"

definition stub_run :: "py_str \<Rightarrow> py_str list \<Rightarrow> (py_exception + py_str) \<times> py_str list" where
  "stub_run query rows =
     (if query = py ''SELECT Name FROM Artist'' then (Inr (join (py '', '') rows), rows)
      else if query = py ''DELETE FROM Artist'' then (Inr [], [])
      else if query = py ''SELECT sleep(60)'' then (Inl Interrupted, rows)
      else (Inl OperationalError, rows))"

definition stub_columns :: "py_str \<Rightarrow> py_exception + column list" where
  "stub_columns table =
     (if table = py ''Artist''
      then Inr [[py ''name'' \<mapsto> py ''ArtistId''], [py ''name'' \<mapsto> py ''Name'']]
      else if table = py ''Track''
      then Inr [[py ''name'' \<mapsto> py ''TrackId''], [py ''name'' \<mapsto> py ''ArtistId'']]
      else Inl \<lparr>exc_class = OtherException (py ''NoSuchTableError''),
                exc_str = table, exc_response = None\<rparr>)"

definition stub_db :: "py_str list SQLDatabase" where
  "stub_db =
     \<lparr>run = stub_run,
      get_usable_table_names = [py ''Artist'', py ''Track''],
      inspector_get_columns = stub_columns\<rparr>"

definition stub_runtime :: "py_str list Runtime" where
  "stub_runtime = \<lparr>runtime_context = Some \<lparr>db = stub_db\<rparr>\<rparr>"

text \<open>
  The same stub with a table in its catalogue that the inspector cannot describe.
\<close>

definition ghost_db :: "py_str list SQLDatabase" where
  "ghost_db = stub_db\<lparr>get_usable_table_names := [py ''Artist'', py ''Ghost'', py ''Track'']\<rparr>"

definition NoSuchTable_Ghost :: py_exception where
  "NoSuchTable_Ghost =
     \<lparr>exc_class = OtherException (py ''NoSuchTableError''),
      exc_str = py ''Ghost'', exc_response = None\<rparr>"

definition stub_names :: "py_str \<Rightarrow> py_str list" where
  "stub_names table =
     (if table = py ''Artist'' then [py ''ArtistId'', py ''Name'']
      else [py ''TrackId'', py ''ArtistId''])"

text \<open>
  A stub whose state holds, beside the artist names, the readings the clock will give
  to the coming statements: every statement uses up one reading, and the query
  \<^verbatim>\<open>SELECT CURRENT_TIME\<close> returns it. The names are the stored data; the readings are
  the part of the state that no statement of the user controls.
\<close>

definition clock_run ::
  "py_str \<Rightarrow> py_str list \<times> py_str list
     \<Rightarrow> (py_exception + py_str) \<times> (py_str list \<times> py_str list)" where
  "clock_run query s =
     (case s of
        (rows, readings) \<Rightarrow>
          if query = py ''SELECT CURRENT_TIME''
          then (Inr (case readings of [] \<Rightarrow> py ''00:00:00'' | t # later \<Rightarrow> t),
                (rows, drop 1 readings))
          else (case stub_run query rows of (r, rows') \<Rightarrow> (r, (rows', drop 1 readings))))"

definition clock_db :: "(py_str list \<times> py_str list) SQLDatabase" where
  "clock_db =
     \<lparr>run = clock_run,
      get_usable_table_names = [py ''Artist'', py ''Track''],
      inspector_get_columns = stub_columns\<rparr>"

definition clock_runtime :: "(py_str list \<times> py_str list) Runtime" where
  "clock_runtime = \<lparr>runtime_context = Some \<lparr>db = clock_db\<rparr>\<rparr>"

text \<open>
  A world for concrete runs of the scripts: the database file is there, every library
  call succeeds, the user types a question, and the stream yields a snapshot, then one
  without \<^verbatim>\<open>"messages"\<close>, then a last one.
\<close>

definition human_step :: step where
  "human_step = [py ''messages'' \<mapsto> [\<lparr>pretty_print = Inr (py ''Human: top 3 albums'' @ [10])\<rparr>]]"

definition malformed_step :: step where
  "malformed_step = Map.empty"

definition answer_step :: step where
  "answer_step =
     [py ''messages'' \<mapsto> [\<lparr>pretty_print = Inr (py ''Human: top 3 albums'' @ [10])\<rparr>,
                          \<lparr>pretty_print = Inr (py ''Ai: done'' @ [10])\<rparr>]]"

definition stub_agent :: "py_str list agent" where
  "stub_agent question ctx = ([human_step, malformed_step, answer_step], None)"

definition stub_world :: "py_str list world" where
  "stub_world =
     \<lparr>load_dotenv = None,
      db_path = py ''/app/db/Chinook.db'',
      db_path_exists = True,
      from_uri = (\<lambda>uri. Inr stub_db),
      ChatCohere = None,
      create_agent = (\<lambda>system_prompt. Inr stub_agent),
      input = Inr (py ''  top 3 albums '')\<rparr>"

text \<open>The same world without the database file.\<close>

definition missing_db_world :: "py_str list world" where
  "missing_db_world = stub_world\<lparr>db_path_exists := False\<rparr>"

definition Database_not_found :: py_exception where
  "Database_not_found =
     \<lparr>exc_class = FileNotFoundError,
      exc_str = py ''Database not found: /app/db/Chinook.db'',
      exc_response = None\<rparr>"

section \<open>Reading a text line by line\<close>

text \<open>
  \<^verbatim>\<open>s.split(c)\<close> for a one-character separator: the pieces of \<open>s\<close> between the
  occurrences of \<open>c\<close>. It is used to say what the lines of a summary are.
\<close>

fun split_on :: "nat \<Rightarrow> py_str \<Rightarrow> py_str list" where
  "split_on c [] = [[]]"
| "split_on c (x # xs) =
     (if x = c then [] # split_on c xs
      else (case split_on c xs of l # ls \<Rightarrow> (x # l) # ls | [] \<Rightarrow> [[x]]))"

section \<open>Properties of the execute_sql tool\<close>

lemma execute_sql_bound:
  assumes "runtime_context runtime = Some ctx"
  shows "execute_sql module_db (Inr runtime) query s =
           (case run (db ctx) query s of
              (Inr rows, s') \<Rightarrow> (Inr rows, s')
            | (Inl e, s') \<Rightarrow>
                if isinstance_Exception e then (Inr (py ''Error: '' @ exc_str e), s')
                else (Inl e, s'))"
  using assms by (simp add: execute_sql_def)

lemma execute_sql_state:
  assumes "runtime_context runtime = Some ctx"
  shows "snd (execute_sql module_db (Inr runtime) query s) = snd (run (db ctx) query s)"
  using assms by (simp add: execute_sql_bound split: prod.splits sum.splits)

lemma stub_runtime_bound: "runtime_context stub_runtime = Some \<lparr>db = stub_db\<rparr>"
  by (simp add: stub_runtime_def)

lemma OperationalError_is_Exception: "isinstance_Exception OperationalError"
  by (simp add: isinstance_Exception_def OperationalError_def)

lemma Interrupted_not_Exception: "\<not> isinstance_Exception Interrupted"
  by (simp add: isinstance_Exception_def Interrupted_def)

text \<open>
  C1. With a runtime context bound, whenever running the query on the context's
  database raises an execution error (an instance of \<^verbatim>\<open>Exception\<close>), the tool does not
  raise: it returns the text \<^verbatim>\<open>Error: \<close> followed by the error's message.
\<close>

theorem execute_sql_contains_execution_errors:
  assumes "runtime_context runtime = Some ctx"
    and "fst (run (db ctx) query s) = Inl e"
    and "isinstance_Exception e"
  shows "fst (execute_sql module_db (Inr runtime) query s) = Inr (py ''Error: '' @ exc_str e)"
proof -
  obtain s' where "run (db ctx) query s = (Inl e, s')"
    using assms(2) by (cases "run (db ctx) query s") simp
  with assms(1,3) show ?thesis
    by (simp add: execute_sql_bound)
qed

theorem execute_sql_contains_execution_errors_witness:
  "runtime_context stub_runtime = Some \<lparr>db = stub_db\<rparr> \<and>
   fst (run stub_db (py ''SELEC nothing'') [py ''AC/DC'']) = Inl OperationalError \<and>
   isinstance_Exception OperationalError \<and>
   fst (execute_sql None (Inr stub_runtime) (py ''SELEC nothing'') [py ''AC/DC'']) =
     Inr (py ''Error: syntax error'')"
proof -
  have b: "fst (run (db \<lparr>db = stub_db\<rparr>) (py ''SELEC nothing'') [py ''AC/DC'']) = Inl OperationalError"
    by (simp add: stub_db_def stub_run_def)
  have "fst (execute_sql None (Inr stub_runtime) (py ''SELEC nothing'') [py ''AC/DC'']) =
          Inr (py ''Error: '' @ exc_str OperationalError)"
    by (rule execute_sql_contains_execution_errors
          [OF stub_runtime_bound b OperationalError_is_Exception])
  then show ?thesis
    using stub_runtime_bound b OperationalError_is_Exception
    by (simp add: OperationalError_def)
qed

text \<open>
  C8. With a runtime context bound, when running the query returns the rendering of
  its rows, the tool returns exactly that text: nothing is cut, filtered or clamped.
\<close>

theorem execute_sql_returns_rows_unmodified:
  assumes "runtime_context runtime = Some ctx"
    and "fst (run (db ctx) query s) = Inr rows"
  shows "fst (execute_sql module_db (Inr runtime) query s) = Inr rows"
proof -
  obtain s' where "run (db ctx) query s = (Inr rows, s')"
    using assms(2) by (cases "run (db ctx) query s") simp
  with assms(1) show ?thesis
    by (simp add: execute_sql_bound)
qed

theorem execute_sql_returns_rows_unmodified_witness:
  "runtime_context stub_runtime = Some \<lparr>db = stub_db\<rparr> \<and>
   fst (run stub_db (py ''SELECT Name FROM Artist'') [py ''AC/DC'', py ''Accept'']) =
     Inr (py ''AC/DC, Accept'') \<and>
   fst (execute_sql None (Inr stub_runtime) (py ''SELECT Name FROM Artist'')
          [py ''AC/DC'', py ''Accept'']) = Inr (py ''AC/DC, Accept'')"
proof -
  have b: "fst (run (db \<lparr>db = stub_db\<rparr>) (py ''SELECT Name FROM Artist'')
                 [py ''AC/DC'', py ''Accept'']) = Inr (py ''AC/DC, Accept'')"
    by (simp add: stub_db_def stub_run_def)
  show ?thesis
    using execute_sql_returns_rows_unmodified [OF stub_runtime_bound b, of None]
      stub_runtime_bound b
    by simp
qed

text \<open>
  C10. The tool catches instances of \<^verbatim>\<open>Exception\<close> only. With a runtime context bound,
  an exception of the database round trip that is not one (a user interrupt, a process
  exit) leaves the tool as it is; and the tool raises in no other case.
\<close>

theorem execute_sql_propagates_interrupts:
  assumes "runtime_context runtime = Some ctx"
  shows "(fst (run (db ctx) query s) = Inl e \<and> \<not> isinstance_Exception e
            \<longrightarrow> fst (execute_sql module_db (Inr runtime) query s) = Inl e) \<and>
         (isl (fst (execute_sql module_db (Inr runtime) query s)) \<longleftrightarrow>
            (\<exists>e'. fst (run (db ctx) query s) = Inl e' \<and> \<not> isinstance_Exception e'))"
  using assms
  by (cases "run (db ctx) query s") (auto simp: execute_sql_bound split: sum.splits)

theorem execute_sql_propagates_interrupts_witness:
  "runtime_context stub_runtime = Some \<lparr>db = stub_db\<rparr> \<and>
   fst (run stub_db (py ''SELECT sleep(60)'') [py ''AC/DC'']) = Inl Interrupted \<and>
   \<not> isinstance_Exception Interrupted \<and>
   fst (execute_sql None (Inr stub_runtime) (py ''SELECT sleep(60)'') [py ''AC/DC'']) =
     Inl Interrupted"
proof -
  have b: "fst (run (db \<lparr>db = stub_db\<rparr>) (py ''SELECT sleep(60)'') [py ''AC/DC'']) = Inl Interrupted"
    by (simp add: stub_db_def stub_run_def)
  show ?thesis
    using execute_sql_propagates_interrupts
            [OF stub_runtime_bound, of "py ''SELECT sleep(60)''" "[py ''AC/DC'']" Interrupted None]
      stub_runtime_bound b Interrupted_not_Exception
    by simp
qed

lemma execute_sql_result:
  assumes "runtime_context runtime = Some ctx"
  shows "fst (execute_sql module_db (Inr runtime) query s) =
           (case fst (run (db ctx) query s) of
              Inr rows \<Rightarrow> Inr rows
            | Inl e \<Rightarrow> if isinstance_Exception e then Inr (py ''Error: '' @ exc_str e) else Inl e)"
  using assms by (simp add: execute_sql_bound split: prod.splits sum.splits)

lemma clock_runtime_bound: "runtime_context clock_runtime = Some \<lparr>db = clock_db\<rparr>"
  by (simp add: clock_runtime_def)

text \<open>
  C9, as stated, fails: \<^verbatim>\<open>SELECT CURRENT_TIME\<close> writes nothing, and the stored data are
  the same before the first invocation, between the two and after the second; yet the
  tool returns \<^verbatim>\<open>12:00:00\<close> the first time and \<^verbatim>\<open>12:00:01\<close> the second.
\<close>

theorem execute_sql_read_only_repeatable_counterexample:
  "fst (snd (execute_sql None (Inr clock_runtime) (py ''SELECT CURRENT_TIME'')
               ([py ''AC/DC''], [py ''12:00:00'', py ''12:00:01'']))) = [py ''AC/DC''] \<and>
   fst (snd (execute_sql None (Inr clock_runtime) (py ''SELECT CURRENT_TIME'')
          (snd (execute_sql None (Inr clock_runtime) (py ''SELECT CURRENT_TIME'')
                  ([py ''AC/DC''], [py ''12:00:00'', py ''12:00:01'']))))) = [py ''AC/DC''] \<and>
   fst (execute_sql None (Inr clock_runtime) (py ''SELECT CURRENT_TIME'')
          ([py ''AC/DC''], [py ''12:00:00'', py ''12:00:01''])) = Inr (py ''12:00:00'') \<and>
   fst (execute_sql None (Inr clock_runtime) (py ''SELECT CURRENT_TIME'')
          (snd (execute_sql None (Inr clock_runtime) (py ''SELECT CURRENT_TIME'')
                  ([py ''AC/DC''], [py ''12:00:00'', py ''12:00:01''])))) = Inr (py ''12:00:01'') \<and>
   fst (execute_sql None (Inr clock_runtime) (py ''SELECT CURRENT_TIME'')
          (snd (execute_sql None (Inr clock_runtime) (py ''SELECT CURRENT_TIME'')
                  ([py ''AC/DC''], [py ''12:00:00'', py ''12:00:01''])))) \<noteq>
   fst (execute_sql None (Inr clock_runtime) (py ''SELECT CURRENT_TIME'')
          ([py ''AC/DC''], [py ''12:00:00'', py ''12:00:01'']))"
  by (simp add: execute_sql_def clock_runtime_def clock_db_def clock_run_def)

text \<open>
  C9, amended. \<open>contents\<close> reads the stored data off the state behind the handle. With
  a runtime context bound, for a query that never changes the stored data and whose
  answer from the database layer is the same whenever the stored data are the same,
  the tool returns on a second invocation what it returned on the first, and the stored
  data are still the same: the tool adds no variation of its own.
\<close>

theorem execute_sql_repeatable_when_answer_determined:
  assumes "runtime_context runtime = Some ctx"
    and "\<forall>s. contents (snd (run (db ctx) query s)) = contents s"
    and "\<forall>s s'. contents s = contents s' \<longrightarrow>
                  fst (run (db ctx) query s) = fst (run (db ctx) query s')"
  shows "fst (execute_sql module_db (Inr runtime) query
                (snd (execute_sql module_db (Inr runtime) query s))) =
         fst (execute_sql module_db (Inr runtime) query s) \<and>
         contents (snd (execute_sql module_db (Inr runtime) query
                          (snd (execute_sql module_db (Inr runtime) query s)))) = contents s"
proof -
  let ?s1 = "snd (execute_sql module_db (Inr runtime) query s)"
  have s1: "?s1 = snd (run (db ctx) query s)"
    using assms(1) by (rule execute_sql_state)
  then have c1: "contents ?s1 = contents s"
    using assms(2) by simp
  then have "fst (run (db ctx) query ?s1) = fst (run (db ctx) query s)"
    using assms(3) by blast
  then have a: "fst (execute_sql module_db (Inr runtime) query ?s1) =
                fst (execute_sql module_db (Inr runtime) query s)"
    by (simp only: execute_sql_result [OF assms(1)])
  have "snd (execute_sql module_db (Inr runtime) query ?s1) = snd (run (db ctx) query ?s1)"
    using assms(1) by (rule execute_sql_state)
  then have "contents (snd (execute_sql module_db (Inr runtime) query ?s1)) = contents ?s1"
    using assms(2) by simp
  with a c1 show ?thesis by simp
qed

theorem execute_sql_repeatable_when_answer_determined_witness:
  "runtime_context clock_runtime = Some \<lparr>db = clock_db\<rparr> \<and>
   execute_sql None (Inr clock_runtime) (py ''SELECT Name FROM Artist'')
     ([py ''AC/DC'', py ''Accept''], [py ''12:00:00'', py ''12:00:01'']) =
     (Inr (py ''AC/DC, Accept''), ([py ''AC/DC'', py ''Accept''], [py ''12:00:01''])) \<and>
   fst (execute_sql None (Inr clock_runtime) (py ''SELECT Name FROM Artist'')
          ([py ''AC/DC'', py ''Accept''], [py ''12:00:01''])) = Inr (py ''AC/DC, Accept'') \<and>
   fst (snd (execute_sql None (Inr clock_runtime) (py ''SELECT Name FROM Artist'')
          ([py ''AC/DC'', py ''Accept''], [py ''12:00:01'']))) = [py ''AC/DC'', py ''Accept'']"
proof -
  let ?q = "py ''SELECT Name FROM Artist''"
  let ?s = "([py ''AC/DC'', py ''Accept''], [py ''12:00:00'', py ''12:00:01''])"
  let ?s1 = "([py ''AC/DC'', py ''Accept''], [py ''12:00:01''])"
  have ro: "\<forall>s. fst (snd (run (db \<lparr>db = clock_db\<rparr>) ?q s)) = fst s"
    by (simp add: clock_db_def clock_run_def stub_run_def split: prod.splits)
  have det: "\<forall>s s'. fst s = fst s' \<longrightarrow>
               fst (run (db \<lparr>db = clock_db\<rparr>) ?q s) = fst (run (db \<lparr>db = clock_db\<rparr>) ?q s')"
    by (auto simp: clock_db_def clock_run_def stub_run_def split: prod.splits)
  have first: "execute_sql None (Inr clock_runtime) ?q ?s = (Inr (py ''AC/DC, Accept''), ?s1)"
    by (simp add: execute_sql_def clock_runtime_def clock_db_def clock_run_def stub_run_def)
  have "fst (execute_sql None (Inr clock_runtime) ?q ?s1) = Inr (py ''AC/DC, Accept'') \<and>
        fst (snd (execute_sql None (Inr clock_runtime) ?q ?s1)) = [py ''AC/DC'', py ''Accept'']"
    using execute_sql_repeatable_when_answer_determined
            [OF clock_runtime_bound ro det, of None ?s]
    by (simp only: first fst_conv snd_conv)
  with clock_runtime_bound first show ?thesis by blast
qed

text \<open>
  C4. The handle the tool queries is the one of the runtime bound when the tool is
  called: the result does not depend on a handle in scope where the tool was defined,
  and the database state after the call is the one left by the context's handle. When
  no runtime is bound, or the runtime carries no context, the tool raises and no
  database is touched.
\<close>

theorem execute_sql_resolves_handle_at_call_time:
  "execute_sql module_db get_runtime query s = execute_sql None get_runtime query s \<and>
   fst (execute_sql module_db (Inr \<lparr>runtime_context = Some \<lparr>db = d\<rparr>\<rparr>) query s) =
     (case fst (run d query s) of
        Inr rows \<Rightarrow> Inr rows
      | Inl e \<Rightarrow> if isinstance_Exception e then Inr (py ''Error: '' @ exc_str e) else Inl e) \<and>
   snd (execute_sql module_db (Inr \<lparr>runtime_context = Some \<lparr>db = d\<rparr>\<rparr>) query s) =
     snd (run d query s) \<and>
   execute_sql module_db (Inl e) query s = (Inl e, s) \<and>
   execute_sql module_db (Inr \<lparr>runtime_context = None\<rparr>) query s =
     (Inl NoneType_has_no_db, s)"
  by (simp add: execute_sql_def split: prod.splits sum.splits)

text \<open>
  An instance: the tool is defined next to the stub database and called in a run whose
  context carries a handle that answers every query with \<^verbatim>\<open>other\<close>; the answer is the
  context's.
\<close>

lemma execute_sql_other_handle_example:
  "execute_sql (Some stub_db)
     (Inr \<lparr>runtime_context = Some \<lparr>db = stub_db\<lparr>run := (\<lambda>q rows. (Inr (py ''other''), rows))\<rparr>\<rparr>\<rparr>)
     (py ''SELECT Name FROM Artist'') [py ''AC/DC''] = (Inr (py ''other''), [py ''AC/DC''])"
  by (simp add: execute_sql_def)

section \<open>Properties of the schema summarizer\<close>

lemma split_on_append_sep:
  "c \<notin> set l \<Longrightarrow> split_on c (l @ c # rest) = l # split_on c rest"
  by (induction l) (auto split: list.splits)

lemma split_on_no_sep: "c \<notin> set l \<Longrightarrow> split_on c l = [l]"
  by (induction l) (auto split: list.splits)

lemma split_on_join:
  "ls \<noteq> [] \<Longrightarrow> \<forall>l\<in>set ls. c \<notin> set l \<Longrightarrow> split_on c (join [c] ls) = ls"
proof (induction "[c]" ls rule: join.induct)
  case 1
  then show ?case by simp
next
  case (2 x)
  then show ?case by (simp add: split_on_no_sep)
next
  case (3 x y ys)
  then show ?case by (simp add: split_on_append_sep)
qed

lemma set_join: "set (join sep xs) \<subseteq> set sep \<union> \<Union> (set ` set xs)"
  by (induction sep xs rule: join.induct) auto

lemma col_names_ok:
  "map (\<lambda>c. c (py ''name'')) cols = map Some ns \<Longrightarrow> col_names cols = Inr ns"
  by (induction cols arbitrary: ns) auto

lemma schema_lines_ok:
  assumes "\<forall>t\<in>set ts. \<exists>cols. inspector_get_columns d t = Inr cols \<and>
             map (\<lambda>c. c (py ''name'')) cols = map Some (names t)"
  shows "schema_lines d ts = (Inr (map (\<lambda>t. schema_line t (names t)) ts), map GetColumns ts)"
  using assms
proof (induction ts)
  case Nil
  then show ?case by simp
next
  case (Cons t ts)
  then obtain cols where c: "inspector_get_columns d t = Inr cols"
      "map (\<lambda>c. c (py ''name'')) cols = map Some (names t)"
    by auto
  from Cons have "schema_lines d ts = (Inr (map (\<lambda>t. schema_line t (names t)) ts), map GetColumns ts)"
    by simp
  with c show ?case
    by (simp add: col_names_ok)
qed

lemma schema_lines_raises:
  assumes "\<forall>t\<in>set pre. \<exists>cols. inspector_get_columns d t = Inr cols \<and>
             map (\<lambda>c. c (py ''name'')) cols = map Some (names t)"
    and "inspector_get_columns d t = Inl e"
  shows "schema_lines d (pre @ t # post) = (Inl e, map GetColumns (pre @ [t]))"
  using assms
proof (induction pre)
  case Nil
  then show ?case by simp
next
  case (Cons p pre)
  then obtain cols where c: "inspector_get_columns d p = Inr cols"
      "map (\<lambda>c. c (py ''name'')) cols = map Some (names p)"
    by auto
  from Cons have "schema_lines d (pre @ t # post) = (Inl e, map GetColumns (pre @ [t]))"
    by simp
  with c show ?case
    by (simp add: col_names_ok)
qed

text \<open>The loop of the flat script and the generator of the refactored one do the same.\<close>

lemma schema_loop_schema_lines:
  "schema_loop d ts acc calls =
     (case schema_lines d ts of
        (Inl e, cs) \<Rightarrow> (Inl e, calls @ cs)
      | (Inr ls, cs) \<Rightarrow> (Inr (acc @ ls), calls @ cs))"
  by (induction ts arbitrary: acc calls) (auto split: sum.splits prod.splits)

lemma get_compact_schema_flat_eq: "get_compact_schema_flat d = get_compact_schema d"
  by (simp add: get_compact_schema_flat_def get_compact_schema_def schema_loop_schema_lines
           split: sum.splits prod.splits)

lemma stub_db_introspection:
  "\<forall>t\<in>set (get_usable_table_names stub_db).
     \<exists>cols. inspector_get_columns stub_db t = Inr cols \<and>
            map (\<lambda>c. c (py ''name'')) cols = map Some (stub_names t)"
  by (simp add: stub_db_def stub_columns_def stub_names_def)

text \<open>
  C2. When the inspector describes every usable table, the summary is the lines
  \<^verbatim>\<open>- <table>: <col1>, <col2>, ...\<close>, one per usable table in the order of the catalogue,
  each with the column names in the order the inspector gives them, joined by newlines;
  the calls made on the handle are the listing of the tables and one column lookup per
  table, and \<^verbatim>\<open>db.run\<close> is never called. Both versions of the summarizer agree. When there
  is a table and no name contains a newline, splitting the summary at the newlines gives
  back exactly these lines.
\<close>

theorem get_compact_schema_one_line_per_table:
  assumes "\<forall>t\<in>set (get_usable_table_names d).
             \<exists>cols. inspector_get_columns d t = Inr cols \<and>
                    map (\<lambda>c. c (py ''name'')) cols = map Some (names t)"
  shows "get_compact_schema d =
           (Inr (join [10]
                   (map (\<lambda>t. py ''- '' @ t @ py '': '' @ join (py '', '') (names t))
                      (get_usable_table_names d))),
            GetUsableTableNames # map GetColumns (get_usable_table_names d)) \<and>
         get_compact_schema_flat d = get_compact_schema d \<and>
         (get_usable_table_names d \<noteq> [] \<and>
          (\<forall>t\<in>set (get_usable_table_names d). 10 \<notin> set t \<and> (\<forall>n\<in>set (names t). 10 \<notin> set n))
          \<longrightarrow> (\<exists>out. fst (get_compact_schema d) = Inr out \<and>
                 split_on 10 out =
                   map (\<lambda>t. py ''- '' @ t @ py '': '' @ join (py '', '') (names t))
                     (get_usable_table_names d)))"
proof -
  let ?line = "\<lambda>t. py ''- '' @ t @ py '': '' @ join (py '', '') (names t)"
  let ?ts = "get_usable_table_names d"
  have line: "(\<lambda>t. schema_line t (names t)) = ?line"
    by (simp add: schema_line_def fun_eq_iff)
  have a: "get_compact_schema d =
             (Inr (join [10] (map ?line ?ts)), GetUsableTableNames # map GetColumns ?ts)"
    using schema_lines_ok [OF assms] by (simp add: get_compact_schema_def line)
  have b: "split_on 10 (join [10] (map ?line ?ts)) = map ?line ?ts"
    if ne: "?ts \<noteq> []"
      and nl: "\<forall>t\<in>set ?ts. 10 \<notin> set t \<and> (\<forall>n\<in>set (names t). 10 \<notin> set n)"
  proof (rule split_on_join)
    show "map ?line ?ts \<noteq> []" using ne by simp
    show "\<forall>l\<in>set (map ?line ?ts). 10 \<notin> set l"
    proof
      fix l assume "l \<in> set (map ?line ?ts)"
      then obtain t where t: "t \<in> set ?ts" "l = ?line t" by auto
      have "10 \<notin> set (join (py '', '') (names t))"
        using set_join [of "py '', ''" "names t"] nl t(1) by auto
      with nl t show "10 \<notin> set l" by simp
    qed
  qed
  show ?thesis
    using a b by (simp add: get_compact_schema_flat_eq)
qed

theorem get_compact_schema_one_line_per_table_witness:
  "get_usable_table_names stub_db = [py ''Artist'', py ''Track''] \<and>
   inspector_get_columns stub_db (py ''Artist'') =
     Inr [[py ''name'' \<mapsto> py ''ArtistId''], [py ''name'' \<mapsto> py ''Name'']] \<and>
   inspector_get_columns stub_db (py ''Track'') =
     Inr [[py ''name'' \<mapsto> py ''TrackId''], [py ''name'' \<mapsto> py ''ArtistId'']] \<and>
   get_compact_schema stub_db =
     (Inr (py ''- Artist: ArtistId, Name'' @ [10] @ py ''- Track: TrackId, ArtistId''),
      [GetUsableTableNames, GetColumns (py ''Artist''), GetColumns (py ''Track'')]) \<and>
   get_compact_schema_flat stub_db = get_compact_schema stub_db \<and>
   split_on 10 (py ''- Artist: ArtistId, Name'' @ [10] @ py ''- Track: TrackId, ArtistId'') =
     [py ''- Artist: ArtistId, Name'', py ''- Track: TrackId, ArtistId'']"
proof -
  have ts: "get_usable_table_names stub_db = [py ''Artist'', py ''Track'']"
    by (simp add: stub_db_def)
  have s: "split_on 10 (py ''- Artist: ArtistId, Name'' @ [10] @ py ''- Track: TrackId, ArtistId'') =
     [py ''- Artist: ArtistId, Name'', py ''- Track: TrackId, ArtistId'']"
    by simp
  have cols: "inspector_get_columns stub_db (py ''Artist'') =
      Inr [[py ''name'' \<mapsto> py ''ArtistId''], [py ''name'' \<mapsto> py ''Name'']]"
    "inspector_get_columns stub_db (py ''Track'') =
      Inr [[py ''name'' \<mapsto> py ''TrackId''], [py ''name'' \<mapsto> py ''ArtistId'']]"
    by (simp_all add: stub_db_def stub_columns_def)
  have "get_compact_schema stub_db =
     (Inr (py ''- Artist: ArtistId, Name'' @ [10] @ py ''- Track: TrackId, ArtistId''),
      [GetUsableTableNames, GetColumns (py ''Artist''), GetColumns (py ''Track'')]) \<and>
   get_compact_schema_flat stub_db = get_compact_schema stub_db"
    using get_compact_schema_one_line_per_table [OF stub_db_introspection]
    by (simp add: ts stub_names_def)
  with ts cols s show ?thesis by blast
qed

text \<open>
  C3, as stated, fails: with the usable tables \<^verbatim>\<open>Artist\<close>, \<^verbatim>\<open>Ghost\<close>, \<^verbatim>\<open>Track\<close>, where the
  inspector raises for \<^verbatim>\<open>Ghost\<close>, the summarizer returns no summary of the two other
  tables; the inspector's exception leaves it.
\<close>

theorem get_compact_schema_omits_failed_table_counterexample:
  "py ''Ghost'' \<in> set (get_usable_table_names ghost_db) \<and>
   inspector_get_columns ghost_db (py ''Ghost'') = Inl NoSuchTable_Ghost \<and>
   fst (get_compact_schema ghost_db) = Inl NoSuchTable_Ghost \<and>
   fst (get_compact_schema_flat ghost_db) = Inl NoSuchTable_Ghost \<and>
   fst (get_compact_schema ghost_db) \<noteq>
     Inr (py ''- Artist: ArtistId, Name'' @ [10] @ py ''- Track: TrackId, ArtistId'')"
  by (simp add: get_compact_schema_flat_eq)
     (simp add: get_compact_schema_def ghost_db_def stub_db_def stub_columns_def
        NoSuchTable_Ghost_def)

text \<open>
  C3, amended. The summarizer has no handler: when the inspector raises for a usable
  table and has described the tables before it, that exception leaves the summarizer,
  no summary is returned, and the tables after it are not looked up.
\<close>

theorem get_compact_schema_raises_on_failed_introspection:
  assumes "get_usable_table_names d = pre @ t # post"
    and "\<forall>p\<in>set pre. \<exists>cols. inspector_get_columns d p = Inr cols \<and>
                    map (\<lambda>c. c (py ''name'')) cols = map Some (names p)"
    and "inspector_get_columns d t = Inl e"
  shows "get_compact_schema d = (Inl e, GetUsableTableNames # map GetColumns (pre @ [t])) \<and>
         get_compact_schema_flat d = (Inl e, GetUsableTableNames # map GetColumns (pre @ [t]))"
  using schema_lines_raises [OF assms(2,3), of post] assms(1)
  by (simp add: get_compact_schema_flat_eq) (simp add: get_compact_schema_def)

theorem get_compact_schema_raises_on_failed_introspection_witness:
  "get_usable_table_names ghost_db = [py ''Artist''] @ py ''Ghost'' # [py ''Track''] \<and>
   inspector_get_columns ghost_db (py ''Artist'') =
     Inr [[py ''name'' \<mapsto> py ''ArtistId''], [py ''name'' \<mapsto> py ''Name'']] \<and>
   inspector_get_columns ghost_db (py ''Ghost'') = Inl NoSuchTable_Ghost \<and>
   get_compact_schema ghost_db =
     (Inl NoSuchTable_Ghost,
      [GetUsableTableNames, GetColumns (py ''Artist''), GetColumns (py ''Ghost'')])"
proof -
  have a: "get_usable_table_names ghost_db = [py ''Artist''] @ py ''Ghost'' # [py ''Track'']"
    by (simp add: ghost_db_def)
  have b: "\<forall>p\<in>set [py ''Artist'']. \<exists>cols. inspector_get_columns ghost_db p = Inr cols \<and>
                    map (\<lambda>c. c (py ''name'')) cols = map Some (stub_names p)"
    by (simp add: ghost_db_def stub_db_def stub_columns_def stub_names_def)
  have c: "inspector_get_columns ghost_db (py ''Ghost'') = Inl NoSuchTable_Ghost"
    by (simp add: ghost_db_def stub_db_def stub_columns_def NoSuchTable_Ghost_def)
  have b': "inspector_get_columns ghost_db (py ''Artist'') =
     Inr [[py ''name'' \<mapsto> py ''ArtistId''], [py ''name'' \<mapsto> py ''Name'']]"
    by (simp add: ghost_db_def stub_db_def stub_columns_def)
  have "get_compact_schema ghost_db =
     (Inl NoSuchTable_Ghost,
      [GetUsableTableNames, GetColumns (py ''Artist''), GetColumns (py ''Ghost'')])"
    using get_compact_schema_raises_on_failed_introspection [OF a b c] by simp
  with a b' c show ?thesis by blast
qed

section \<open>Properties of the question prompt\<close>

lemma strip_empty_iff: "strip s = [] \<longleftrightarrow> (\<forall>c\<in>set s. isspace c)"
proof
  assume "strip s = []"
  then have "\<forall>c\<in>set (dropWhile isspace s). isspace c"
    by (simp add: strip_def dropWhile_eq_Nil_conv)
  then have "dropWhile isspace s = []"
    using hd_dropWhile [of isspace s] hd_in_set [of "dropWhile isspace s"] by blast
  then show "\<forall>c\<in>set s. isspace c"
    by (simp add: dropWhile_eq_Nil_conv)
next
  assume "\<forall>c\<in>set s. isspace c"
  then have "dropWhile isspace s = []"
    by (simp add: dropWhile_eq_Nil_conv)
  then show "strip s = []"
    by (simp only: strip_def rev.simps dropWhile.simps)
qed

lemma strip_decomposition:
  "\<exists>pre suf. s = pre @ strip s @ suf \<and> (\<forall>c\<in>set pre. isspace c) \<and> (\<forall>c\<in>set suf. isspace c)"
proof -
  let ?m = "dropWhile isspace s"
  have 1: "s = takeWhile isspace s @ ?m" by simp
  have 2: "rev ?m = takeWhile isspace (rev ?m) @ dropWhile isspace (rev ?m)" by simp
  have "rev (rev ?m) = rev (takeWhile isspace (rev ?m) @ dropWhile isspace (rev ?m))"
    by (simp only: takeWhile_dropWhile_id)
  then have "?m = rev (dropWhile isspace (rev ?m)) @ rev (takeWhile isspace (rev ?m))"
    by (simp only: rev_rev_ident rev_append)
  then have 3: "?m = strip s @ rev (takeWhile isspace (rev ?m))"
    by (simp add: strip_def)
  have "s = takeWhile isspace s @ strip s @ rev (takeWhile isspace (rev ?m))"
    using 1 3 by metis
  moreover have "\<forall>c\<in>set (takeWhile isspace s). isspace c"
    by (auto dest: set_takeWhileD)
  moreover have "\<forall>c\<in>set (rev (takeWhile isspace (rev ?m))). isspace c"
    by (auto dest: set_takeWhileD)
  ultimately show ?thesis by blast
qed

lemma strip_ends:
  assumes "strip s \<noteq> []"
  shows "\<not> isspace (hd (strip s)) \<and> \<not> isspace (last (strip s))"
proof -
  let ?m = "dropWhile isspace s"
  let ?r = "dropWhile isspace (rev ?m)"
  have r: "?r \<noteq> []" using assms by (simp add: strip_def)
  have m: "?m \<noteq> []"
  proof
    assume "?m = []"
    then have "?r = []" by (simp only: rev.simps dropWhile.simps)
    with r show False by simp
  qed
  have "last (strip s) = hd ?r"
    using r by (simp add: strip_def last_rev)
  then have l: "\<not> isspace (last (strip s))"
    using hd_dropWhile [OF r] by simp
  have mh: "\<not> isspace (hd ?m)"
    using hd_dropWhile [OF m] .
  have "rev (rev ?m) = rev (takeWhile isspace (rev ?m) @ ?r)"
    by (simp only: takeWhile_dropWhile_id)
  then have "?m = strip s @ rev (takeWhile isspace (rev ?m))"
    by (simp only: rev_rev_ident rev_append strip_def)
  then have "hd ?m = hd (strip s)"
    using assms by (metis hd_append2)
  with mh l show ?thesis by simp
qed

text \<open>
  C7. For an input line that is empty or all whitespace, both versions of the prompt
  function return the default question \<^verbatim>\<open>List top 10 artists with highest tracks\<close>; for
  any other line they return the stripped line, which is the line without a leading and
  a trailing run of whitespace and neither starts nor ends with whitespace.
\<close>

theorem get_user_question_default_or_stripped:
  "fst (get_user_question (Inr line)) =
     Inr (if \<forall>c\<in>set line. isspace c then py ''List top 10 artists with highest tracks''
          else strip line) \<and>
   fst (get_user_question_flat (Inr line)) = fst (get_user_question (Inr line)) \<and>
   (\<exists>pre suf. line = pre @ strip line @ suf \<and>
      (\<forall>c\<in>set pre. isspace c) \<and> (\<forall>c\<in>set suf. isspace c)) \<and>
   (strip line \<noteq> [] \<longrightarrow> \<not> isspace (hd (strip line)) \<and> \<not> isspace (last (strip line)))"
proof -
  have "fst (get_user_question (Inr line)) =
     Inr (if \<forall>c\<in>set line. isspace c then py ''List top 10 artists with highest tracks''
          else strip line)"
    unfolding get_user_question_def Let_def DEFAULT_QUESTION_def
    by (simp only: strip_empty_iff sum.case fst_conv)
  moreover have "fst (get_user_question_flat (Inr line)) = fst (get_user_question (Inr line))"
    unfolding get_user_question_def get_user_question_flat_def Let_def DEFAULT_QUESTION_def
    by (simp only: sum.case fst_conv)
  ultimately show ?thesis
    using strip_decomposition [of line] strip_ends [of line] by blast
qed

theorem get_user_question_default_or_stripped_witness:
  "list_all isspace [32, 9, 32] \<and>
   fst (get_user_question (Inr [32, 9, 32])) = Inr (py ''List top 10 artists with highest tracks'') \<and>
   \<not> list_all isspace (py ''  top 3 albums '') \<and>
   fst (get_user_question (Inr (py ''  top 3 albums ''))) = Inr (py ''top 3 albums'') \<and>
   fst (get_user_question_flat (Inr (py ''  top 3 albums ''))) = Inr (py ''top 3 albums'')"
proof -
  have a: "\<forall>c\<in>set ([32, 9, 32]). isspace c"
    by (simp add: isspace_def)
  have b: "\<not> (\<forall>c\<in>set (py ''  top 3 albums ''). isspace c)"
    by (simp add: isspace_def)
  have c: "strip (py ''  top 3 albums '') = py ''top 3 albums''"
    by (simp add: strip_def isspace_def)
  show ?thesis
    using get_user_question_default_or_stripped [of "[32, 9, 32]"]
      get_user_question_default_or_stripped [of "py ''  top 3 albums ''"] a b c
    by (simp add: list_all_iff)
qed

section \<open>Properties of the scripts\<close>

text \<open>Both versions of \<^verbatim>\<open>handle_error\<close> write the same text.\<close>

lemma handle_error_flat_eq: "handle_error_flat e ctxt = handle_error e ctxt"
  by (simp add: handle_error_flat_def handle_error_def print_def split: option.splits)

lemma stream_loop_break:
  assumes "\<forall>s\<in>set pre. print_last_message s = Inr (shown s)"
    and "print_last_message bad = Inl e"
    and "isinstance_Exception e"
  shows "stream_loop handler (pre @ bad # rest) raised =
           (Inr (), concat (map shown pre) @ handler e (py ''processing stream''))"
  using assms by (induction pre) simp_all

lemma Exception_not_KeyboardInterrupt:
  "isinstance_Exception e \<Longrightarrow> exc_class e \<noteq> KeyboardInterrupt"
  by (auto simp: isinstance_Exception_def)

lemma main_failed_construction:
  assumes "load_dotenv w = None"
    and "create_database w = Inl e \<or> (\<exists>d. create_database w = Inr d \<and> create_sql_agent w d = Inl e)"
  shows "main w = (Inl e, [])"
  using assms by (auto simp: main_def)

lemma main_reaches_loop:
  assumes "load_dotenv w = None"
    and "create_database w = Inr d"
    and "create_sql_agent w d = Inr agent"
    and "get_user_question (input w) = (Inr question, out)"
    and "agent question \<lparr>db = d\<rparr> = (steps, raised)"
  shows "main w =
           (fst (stream_loop handle_error steps raised),
            out @ print ([10] @ py ''Processing: '' @ question @ [10]) @
            snd (stream_loop handle_error steps raised))"
  using assms by (simp add: main_def split: prod.splits)

lemma script_flat_reaches_loop:
  assumes "load_dotenv w = None"
    and "from_uri w (py ''sqlite:///Chinook.db'') = Inr d"
    and "fst (get_compact_schema_flat d) = Inr schema"
    and "ChatCohere w = None"
    and "create_agent w (SYSTEM_PROMPT schema) = Inr agent"
    and "get_user_question_flat (input w) = (Inr question, out)"
    and "agent question \<lparr>db = d\<rparr> = (steps, raised)"
    and "stream_loop handle_error_flat steps raised = (Inr (), out2)"
  shows "script_flat w =
           (out @ print ([10] @ py ''Processing: '' @ question @ [10]) @ out2, Exited 0)"
  using assms by (simp add: script_flat_def flat_main_block_def)

text \<open>
  The flat script opens the database outside any handler, so there an exception from
  building the handle reaches the interpreter.
\<close>

lemma script_flat_failed_construction:
  assumes "load_dotenv w = None"
    and "from_uri w (py ''sqlite:///Chinook.db'') = Inl e"
  shows "script_flat w = ([], interpreter_exit e)"
  using assms by (simp add: script_flat_def)

text \<open>
  C5, as stated, fails: when the database file is missing, the refactored script
  reports the failure on standard output and then ends with exit status 0, although
  nobody cancelled anything.
\<close>

theorem script_exits_nonzero_on_failed_construction_counterexample:
  "\<not> db_path_exists missing_db_world \<and>
   create_database missing_db_world = Inl Database_not_found \<and>
   script missing_db_world =
     ([10] @ py ''Error in main execution: Database not found: /app/db/Chinook.db'' @ [10],
      Exited 0)"
  by (simp add: script_def main_def create_database_def missing_db_world_def stub_world_def
        Database_not_found_def isinstance_Exception_def handle_error_def print_def)

text \<open>
  C5, amended. When the environment has been loaded and building the database handle
  or the agent raises an \<^verbatim>\<open>Exception\<close>, the refactored script ends there: nothing but the
  report \<^verbatim>\<open>Error in main execution: <message>\<close> is written (no question is asked), and
  the exit status is 0. For a missing database file the exception is a
  \<^verbatim>\<open>FileNotFoundError\<close> and the message is \<^verbatim>\<open>Database not found: <path>\<close>.
\<close>

theorem script_reports_failed_construction:
  assumes "load_dotenv w = None"
    and "create_database w = Inl e \<or>
         (\<exists>d. create_database w = Inr d \<and> create_sql_agent w d = Inl e)"
    and "isinstance_Exception e"
  shows "script w = (handle_error e (py ''in main execution''), Exited 0) \<and>
         (\<not> db_path_exists w \<longrightarrow>
            exc_class e = FileNotFoundError \<and>
            handle_error e (py ''in main execution'') =
              print ([10] @ py ''Error in main execution: Database not found: '' @ db_path w))"
proof -
  have "main w = (Inl e, [])"
    using assms(1,2) by (rule main_failed_construction)
  then have a: "script w = (handle_error e (py ''in main execution''), Exited 0)"
    using assms(3) Exception_not_KeyboardInterrupt [OF assms(3)] by (simp add: script_def)
  have b: "exc_class e = FileNotFoundError \<and>
           handle_error e (py ''in main execution'') =
             print ([10] @ py ''Error in main execution: Database not found: '' @ db_path w)"
    if "\<not> db_path_exists w"
  proof -
    have "create_database w =
            Inl \<lparr>exc_class = FileNotFoundError,
                 exc_str = py ''Database not found: '' @ db_path w,
                 exc_response = None\<rparr>"
      using that by (simp add: create_database_def)
    with assms(2) have "e = \<lparr>exc_class = FileNotFoundError,
                 exc_str = py ''Database not found: '' @ db_path w,
                 exc_response = None\<rparr>"
      by auto
    then show ?thesis by (simp add: handle_error_def)
  qed
  from a b show ?thesis by blast
qed

theorem script_reports_failed_construction_witness:
  "load_dotenv missing_db_world = None \<and>
   create_database missing_db_world = Inl Database_not_found \<and>
   isinstance_Exception Database_not_found \<and>
   \<not> db_path_exists missing_db_world \<and>
   script missing_db_world = (handle_error Database_not_found (py ''in main execution''), Exited 0) \<and>
   handle_error Database_not_found (py ''in main execution'') =
     [10] @ py ''Error in main execution: Database not found: /app/db/Chinook.db'' @ [10]"
proof -
  have a: "load_dotenv missing_db_world = None"
    by (simp add: missing_db_world_def stub_world_def)
  have b: "create_database missing_db_world = Inl Database_not_found"
    by (simp add: create_database_def missing_db_world_def stub_world_def Database_not_found_def)
  have c: "isinstance_Exception Database_not_found"
    by (simp add: isinstance_Exception_def Database_not_found_def)
  have d: "\<not> db_path_exists missing_db_world"
    by (simp add: missing_db_world_def stub_world_def)
  have e: "handle_error Database_not_found (py ''in main execution'') =
     [10] @ py ''Error in main execution: Database not found: /app/db/Chinook.db'' @ [10]"
    by (simp add: handle_error_def Database_not_found_def print_def)
  have "script missing_db_world =
          (handle_error Database_not_found (py ''in main execution''), Exited 0)"
    using script_reports_failed_construction [OF a disjI1 [OF b] c] by blast
  with a b c d e show ?thesis by blast
qed

text \<open>
  C6. When the snapshots before a snapshot have been shown and showing that snapshot
  raises an \<^verbatim>\<open>Exception\<close>, the loop ends normally: what has been written is the text of
  the snapshots before it and the report \<^verbatim>\<open>Error processing stream: <message>\<close>; the
  snapshots after it, and whatever the stream would raise later, play no part. A script
  that has reached the loop this way writes nothing more and ends with exit status 0.
\<close>

theorem stream_loop_stops_on_render_failure:
  assumes "\<forall>s\<in>set pre. print_last_message s = Inr (shown s)"
    and "print_last_message bad = Inl e"
    and "isinstance_Exception e"
  shows "stream_loop handle_error (pre @ bad # rest) raised =
           (Inr (), concat (map shown pre) @ handle_error e (py ''processing stream'')) \<and>
         stream_loop handle_error_flat (pre @ bad # rest) raised =
           (Inr (), concat (map shown pre) @ handle_error e (py ''processing stream'')) \<and>
         (load_dotenv w = None \<and> create_database w = Inr d \<and>
          create_sql_agent w d = Inr agent \<and>
          get_user_question (input w) = (Inr question, out) \<and>
          agent question \<lparr>db = d\<rparr> = (pre @ bad # rest, raised)
          \<longrightarrow> script w =
                (out @ print ([10] @ py ''Processing: '' @ question @ [10]) @
                 concat (map shown pre) @ handle_error e (py ''processing stream''),
                 Exited 0)) \<and>
         (load_dotenv w = None \<and> from_uri w (py ''sqlite:///Chinook.db'') = Inr d' \<and>
          fst (get_compact_schema_flat d') = Inr schema \<and> ChatCohere w = None \<and>
          create_agent w (SYSTEM_PROMPT schema) = Inr agent' \<and>
          get_user_question_flat (input w) = (Inr question', out') \<and>
          agent' question' \<lparr>db = d'\<rparr> = (pre @ bad # rest, raised)
          \<longrightarrow> script_flat w =
                (out' @ print ([10] @ py ''Processing: '' @ question' @ [10]) @
                 concat (map shown pre) @ handle_error e (py ''processing stream''),
                 Exited 0))"
proof -
  have loop: "stream_loop handler (pre @ bad # rest) raised =
           (Inr (), concat (map shown pre) @ handler e (py ''processing stream''))" for handler
    using assms by (rule stream_loop_break)
  have flat: "stream_loop handle_error_flat (pre @ bad # rest) raised =
           (Inr (), concat (map shown pre) @ handle_error e (py ''processing stream''))"
    using loop [of handle_error_flat] by (simp only: handle_error_flat_eq)
  have s1: "script w =
                (out @ print ([10] @ py ''Processing: '' @ question @ [10]) @
                 concat (map shown pre) @ handle_error e (py ''processing stream''),
                 Exited 0)"
    if "load_dotenv w = None" "create_database w = Inr d" "create_sql_agent w d = Inr agent"
      "get_user_question (input w) = (Inr question, out)"
      "agent question \<lparr>db = d\<rparr> = (pre @ bad # rest, raised)"
    using main_reaches_loop [OF that] by (simp add: script_def loop)
  have s2: "script_flat w =
                (out' @ print ([10] @ py ''Processing: '' @ question' @ [10]) @
                 concat (map shown pre) @ handle_error e (py ''processing stream''),
                 Exited 0)"
    if "load_dotenv w = None" "from_uri w (py ''sqlite:///Chinook.db'') = Inr d'"
      "fst (get_compact_schema_flat d') = Inr schema" "ChatCohere w = None"
      "create_agent w (SYSTEM_PROMPT schema) = Inr agent'"
      "get_user_question_flat (input w) = (Inr question', out')"
      "agent' question' \<lparr>db = d'\<rparr> = (pre @ bad # rest, raised)"
    using script_flat_reaches_loop [OF that flat] .
  from loop [of handle_error] flat s1 s2 show ?thesis by blast
qed

theorem stream_loop_stops_on_render_failure_witness:
  "print_last_message human_step = Inr (py ''Human: top 3 albums'' @ [10]) \<and>
   print_last_message malformed_step = Inl (KeyError_of (py ''messages'')) \<and>
   isinstance_Exception (KeyError_of (py ''messages'')) \<and>
   stream_loop handle_error [human_step, malformed_step, answer_step] None =
     (Inr (), py ''Human: top 3 albums'' @ [10] @
              [10] @ py ''Error processing stream: '' @ [39] @ py ''messages'' @ [39] @ [10]) \<and>
   load_dotenv stub_world = None \<and>
   create_database stub_world = Inr stub_db \<and>
   create_sql_agent stub_world stub_db = Inr stub_agent \<and>
   get_user_question (input stub_world) =
     (Inr (py ''top 3 albums''), py ''Question [List top 10 artists with highest tracks]: '') \<and>
   stub_agent (py ''top 3 albums'') \<lparr>db = stub_db\<rparr> =
     ([human_step, malformed_step, answer_step], None) \<and>
   script stub_world =
     (py ''Question [List top 10 artists with highest tracks]: '' @
      [10] @ py ''Processing: top 3 albums'' @ [10, 10] @
      py ''Human: top 3 albums'' @ [10] @
      [10] @ py ''Error processing stream: '' @ [39] @ py ''messages'' @ [39] @ [10],
      Exited 0) \<and>
   from_uri stub_world (py ''sqlite:///Chinook.db'') = Inr stub_db \<and>
   fst (get_compact_schema_flat stub_db) =
     Inr (py ''- Artist: ArtistId, Name'' @ [10] @ py ''- Track: TrackId, ArtistId'') \<and>
   ChatCohere stub_world = None \<and>
   create_agent stub_world
     (SYSTEM_PROMPT (py ''- Artist: ArtistId, Name'' @ [10] @ py ''- Track: TrackId, ArtistId'')) =
     Inr stub_agent \<and>
   get_user_question_flat (input stub_world) =
     (Inr (py ''top 3 albums''),
      py ''Enter your question (press Enter to use default): '' @ [10] @
      py ''[Default: List top 10 artists with highest tracks]'' @ [10] @ py ''> '') \<and>
   script_flat stub_world =
     (py ''Enter your question (press Enter to use default): '' @ [10] @
      py ''[Default: List top 10 artists with highest tracks]'' @ [10] @ py ''> '' @
      [10] @ py ''Processing: top 3 albums'' @ [10, 10] @
      py ''Human: top 3 albums'' @ [10] @
      [10] @ py ''Error processing stream: '' @ [39] @ py ''messages'' @ [39] @ [10],
      Exited 0)"
proof -
  let ?shown = "\<lambda>s::step. py ''Human: top 3 albums'' @ [10]"
  let ?e = "KeyError_of (py ''messages'')"
  let ?schema = "py ''- Artist: ArtistId, Name'' @ [10] @ py ''- Track: TrackId, ArtistId''"
  let ?prompt = "py ''Question [List top 10 artists with highest tracks]: ''"
  let ?prompt_flat = "py ''Enter your question (press Enter to use default): '' @ [10] @
      py ''[Default: List top 10 artists with highest tracks]'' @ [10] @ py ''> ''"
  have h1: "\<forall>s\<in>set [human_step]. print_last_message s = Inr (?shown s)"
    by (simp add: print_last_message_def human_step_def)
  have h2: "print_last_message malformed_step = Inl ?e"
    by (simp add: print_last_message_def malformed_step_def)
  have h3: "isinstance_Exception ?e"
    by (simp add: isinstance_Exception_def KeyError_of_def)
  have strip: "strip (py ''  top 3 albums '') = py ''top 3 albums''"
    by (simp add: strip_def isspace_def)
  have w1: "load_dotenv stub_world = None"
    by (simp add: stub_world_def)
  have w2: "create_database stub_world = Inr stub_db"
    by (simp add: create_database_def stub_world_def)
  have schema: "fst (get_compact_schema stub_db) = Inr ?schema"
    by (simp add: get_compact_schema_def stub_db_def stub_columns_def schema_line_def)
  have w3: "create_sql_agent stub_world stub_db = Inr stub_agent"
    by (simp add: create_sql_agent_def schema) (simp add: stub_world_def)
  have w4: "get_user_question (input stub_world) = (Inr (py ''top 3 albums''), ?prompt)"
    using strip by (simp add: stub_world_def get_user_question_def DEFAULT_QUESTION_def)
  have w5: "stub_agent (py ''top 3 albums'') \<lparr>db = stub_db\<rparr> =
              ([human_step] @ malformed_step # [answer_step], None)"
    by (simp add: stub_agent_def)
  have f2: "from_uri stub_world (py ''sqlite:///Chinook.db'') = Inr stub_db"
    by (simp add: stub_world_def)
  have f3: "fst (get_compact_schema_flat stub_db) = Inr ?schema"
    by (simp only: get_compact_schema_flat_eq schema)
  have f4: "ChatCohere stub_world = None"
    by (simp add: stub_world_def)
  have f5: "create_agent stub_world (SYSTEM_PROMPT ?schema) = Inr stub_agent"
    by (simp add: stub_world_def)
  have f6: "get_user_question_flat (input stub_world) = (Inr (py ''top 3 albums''), ?prompt_flat)"
    using strip by (simp add: stub_world_def get_user_question_flat_def)
  have herr: "handle_error ?e (py ''processing stream'') =
                [10] @ py ''Error processing stream: '' @ [39] @ py ''messages'' @ [39] @ [10]"
    by (simp add: handle_error_def KeyError_of_def print_def)
  note inst = stream_loop_stops_on_render_failure [OF h1 h2 h3,
      of "[answer_step]" None stub_world stub_db stub_agent "py ''top 3 albums''" ?prompt
         stub_db ?schema stub_agent "py ''top 3 albums''" ?prompt_flat]
  have c1: "stream_loop handle_error [human_step, malformed_step, answer_step] None =
     (Inr (), py ''Human: top 3 albums'' @ [10] @
              [10] @ py ''Error processing stream: '' @ [39] @ py ''messages'' @ [39] @ [10])"
    using inst herr by simp
  have c2: "script stub_world =
     (?prompt @ [10] @ py ''Processing: top 3 albums'' @ [10, 10] @
      py ''Human: top 3 albums'' @ [10] @
      [10] @ py ''Error processing stream: '' @ [39] @ py ''messages'' @ [39] @ [10],
      Exited 0)"
    using inst w1 w2 w3 w4 w5 herr by (simp add: print_def)
  have c3: "script_flat stub_world =
     (?prompt_flat @ [10] @ py ''Processing: top 3 albums'' @ [10, 10] @
      py ''Human: top 3 albums'' @ [10] @
      [10] @ py ''Error processing stream: '' @ [39] @ py ''messages'' @ [39] @ [10],
      Exited 0)"
    using inst w1 w5 f2 f3 f4 f5 f6 herr by (simp add: print_def)
  show ?thesis
    using h1 h2 h3 c1 w1 w2 w3 w4 w5 c2 f2 f3 f4 f5 f6 c3 by simp
qed

end
